theory Spec2Isabelle
  imports Complex_Main "HOL-Library.Word"
begin

section \<open>Data model of \<open>greppo.py\<close>\<close>

text \<open>
  The development embeds \<open>GreppoAppProxy\<close> of \<open>src/library/src/greppo/greppo.py\<close>.
  Coordinates are Python floats, modelled as \<open>real\<close> (every corner mapping used
  below is exact on the numerals that occur). Byte strings are lists of 8-bit words,
  Python \<open>str\<close> is \<open>string\<close>.
\<close>

type_synonym bytes = "8 word list"
type_synonym crs = string
type_synonym kwargs = "(string \<times> string) list"

text \<open>
  A pixel is a numpy number: a finite value, an infinity or NaN (the nodata value of
  many float rasters). \<open>x > c\<close> on a pixel is numpy's comparison: false for NaN.
\<close>

datatype pixel = Num real | PosInf | NegInf | NaN

fun px_gt :: "pixel \<Rightarrow> real \<Rightarrow> bool" where
  "px_gt (Num r) c = (r > c)"
| "px_gt PosInf c = True"
| "px_gt NegInf c = False"
| "px_gt NaN c = False"

text \<open>A numpy array as \<open>reproject\<close> returns it: shape (bands, rows, columns).\<close>

type_synonym plane = "pixel list list"
type_synonym ndarray = "plane list"

text \<open>
  Exceptions. The failures of the libraries the code calls carry the names of the
  taxonomy of the specification; \<open>IndexError\<close>, \<open>TypeError\<close> and
  \<open>AssertionError\<close> are the ones Python raises in \<open>greppo.py\<close> itself.
\<close>

datatype error =
    UnreadableSource | TransformFailed | ReprojectionFailed | EncodingFailed | EmptyGeometry
  | ZoomFailed | ImageFailed | ComponentFailed
  | IndexError | TypeError | AssertionError

text \<open>
  \<open>affine.Affine(a, b, c, d, e, f)\<close>; \<open>transform * (x, y)\<close> is
  \<open>(x * a + y * b + c, x * d + y * e + f)\<close>.
\<close>

datatype affine = Affine real real real real real real

fun affine_mul :: "affine \<Rightarrow> real \<times> real \<Rightarrow> real \<times> real" where
  "affine_mul (Affine sa sb sc sd se sf) (vx, vy) =
     (vx * sa + vy * sb + sc, vx * sd + vy * se + sf)"

definition affine_identity :: affine where
  "affine_identity = Affine 1 0 0 0 1 0"

text \<open>
  \<open>src_dataset.meta\<close> is the dictionary of these eight attributes of the dataset;
  the dataset has them as attributes too, with its name and its bounds
  \<open>(left, bottom, right, top)\<close>.
\<close>

record meta =
  driver :: string
  dtype :: string
  nodata :: "real option"
  width :: nat
  height :: nat
  count :: nat
  crs :: crs
  transform :: affine

record dataset = meta +
  name :: string
  bounds :: "real \<times> real \<times> real \<times> real"

text \<open>\<open>rasterio.band(ds, bidx)\<close>: the dataset and the 1-based band index.\<close>

datatype Band = Band dataset nat

text \<open>
  An element of the list \<open>dst_bands\<close>: either the pair \<open>(array, transform)\<close> that
  \<open>reproject\<close> returned, or (lines 192-194) a \<open>rasterio.band\<close> object of the source.
\<close>

datatype band_entry = Reprojected ndarray affine | SourceBand Band

datatype RasterLayer =
  RasterLayer (rl_id: string) (rl_title: string) (rl_description: string)
    (rl_url: string) (rl_bounds: "real list list") (rl_visible: bool)

type_synonym gdf = "(real \<times> real \<times> real \<times> real) list"

datatype OverlayLayer =
  OverlayLayer (ol_id: string) (ol_data: gdf) (ol_title: string) (ol_description: string)
    (ol_style: kwargs) (ol_visible: bool) (ol_viewzoom: "real \<times> real \<times> int")

datatype BaseLayer =
  BaseLayer (bl_id: string) (bl_name: string) (bl_visible: bool) (bl_url: string)
    (bl_subdomains: "string list") (bl_attribution: string)

datatype ImageLayer =
  ImageLayer (il_id: string) (il_title: string) (il_description: string)
    (il_url: string) (il_bounds: "real list list") (il_visible: bool)

datatype TileLayer = TileLayer kwargs

datatype ComponentInfo = ComponentInfo string kwargs

datatype component_kind =
  Display | Number | Text | Select | Multiselect | DrawFeature | BarChart | LineChart

text \<open>The attributes \<open>__init__\<close> creates (lines 81-92).\<close>

record GreppoAppProxy =
  base_layers :: "BaseLayer list"
  tile_layers :: "TileLayer list"
  overlay_layers :: "OverlayLayer list"
  raster_layers :: "RasterLayer list"
  image_layers :: "ImageLayer list"
  raster_image_reference :: "bytes list"
  registered_inputs :: "ComponentInfo list"
  inputs :: kwargs

definition init :: GreppoAppProxy where
  "init = \<lparr>base_layers = [], tile_layers = [], overlay_layers = [], raster_layers = [],
     image_layers = [], raster_image_reference = [], registered_inputs = [], inputs = []\<rparr>"

section \<open>The libraries the code calls\<close>

text \<open>
  rasterio, PIL, the components of \<open>input_types\<close> and \<open>osm.Map\<close> are not part of
  \<open>greppo.py\<close>; each call is a field of this record, returning \<open>Inl\<close> where the call
  raises. \<open>'w\<close> is the state of the dataset writer that \<open>png_memfile.open\<close> returns:
  \<open>memfile_content w\<close> are the bytes the memory file holds while that writer is open,
  \<open>dst_close w\<close> the bytes it holds once the writer has been closed.
\<close>

type_synonym colormap = "(nat \<times> (nat \<times> nat \<times> nat \<times> nat)) list"

record 'w collaborators =
  rasterio_open :: "string \<Rightarrow> error + dataset"
  calculate_default_transform ::
    "crs \<Rightarrow> crs \<Rightarrow> nat \<Rightarrow> nat \<Rightarrow> real \<times> real \<times> real \<times> real \<Rightarrow> error + (affine \<times> nat \<times> nat)"
  reproject :: "Band \<Rightarrow> crs \<Rightarrow> error + (ndarray \<times> affine)"
  memfile_open :: "meta \<Rightarrow> error + 'w"
  dst_write :: "'w \<Rightarrow> plane \<Rightarrow> nat \<Rightarrow> error + 'w"
  dst_write_colormap :: "'w \<Rightarrow> nat \<Rightarrow> colormap \<Rightarrow> error + 'w"
  memfile_content :: "'w \<Rightarrow> bytes"
  dst_close :: "'w \<Rightarrow> error + bytes"
  osm_Map_z :: "real list \<Rightarrow> error + int"
  image_to_jpeg :: "string \<Rightarrow> error + bytes"
  convert_to_component_info :: "component_kind \<Rightarrow> kwargs \<Rightarrow> error + ComponentInfo"
  convert_to_dataclass :: "kwargs \<Rightarrow> error + TileLayer"
  ee_convert_to_dataclass :: "kwargs \<Rightarrow> error + TileLayer"

section \<open>\<open>raster_layer\<close>: reprojection, padding and alpha (lines 186-199)\<close>

definition dst_crs :: crs where
  "dst_crs = ''EPSG:4326''"

text \<open>The loop of lines 187-190 over \<open>range(src_dataset.count)\<close>.\<close>

fun reproject_loop ::
  "'w collaborators \<Rightarrow> dataset \<Rightarrow> nat list \<Rightarrow> band_entry list \<Rightarrow> error + band_entry list" where
  "reproject_loop C src_dataset [] dst_bands = Inr dst_bands"
| "reproject_loop C src_dataset (band_n_1 # rest) dst_bands =
     (case reproject C (Band src_dataset (band_n_1 + 1)) dst_crs of
        Inl e \<Rightarrow> Inl e
      | Inr (arr, t) \<Rightarrow> reproject_loop C src_dataset rest (dst_bands @ [Reprojected arr t]))"

definition reproject_bands :: "'w collaborators \<Rightarrow> dataset \<Rightarrow> error + band_entry list" where
  "reproject_bands C src_dataset = reproject_loop C src_dataset [0 ..< count src_dataset] []"

text \<open>
  Lines 192-194: \<open>for i in range(len(dst_bands), src_dataset.count)\<close> appends
  \<open>rasterio.band(src_dataset, 1)\<close>, when the count is not 3.
\<close>

definition pad_bands :: "dataset \<Rightarrow> band_entry list \<Rightarrow> band_entry list" where
  "pad_bands src_dataset dst_bands =
     (if count src_dataset \<noteq> 3
      then fold (\<lambda>i bs. bs @ [SourceBand (Band src_dataset 1)])
             [length dst_bands ..< count src_dataset] dst_bands
      else dst_bands)"

text \<open>
  \<open>np.where(x > 1e8, 0, 1)\<close>, element by element, and \<open>astype("uint8")\<close>, which
  leaves 0 and 1 as they are.
\<close>

definition alpha_px :: "pixel \<Rightarrow> pixel" where
  "alpha_px p = (if px_gt p 100000000 then Num 0 else Num 1)"

definition np_where_alpha :: "ndarray \<Rightarrow> ndarray" where
  "np_where_alpha arr = map (map (map alpha_px)) arr"

text \<open>
  Lines 196-199. \<open>dst_bands[0]\<close> raises IndexError on the empty list; on a
  \<open>rasterio.band\<close> entry \<open>dst_bands[0][0]\<close> is the dataset object, which does not
  compare with a number. The alpha entry is a copy of entry 0 with the array replaced.
\<close>

definition append_alpha :: "band_entry list \<Rightarrow> error + band_entry list" where
  "append_alpha dst_bands =
     (case dst_bands of
        [] \<Rightarrow> Inl IndexError
      | Reprojected arr t # _ \<Rightarrow> Inr (dst_bands @ [Reprojected (np_where_alpha arr) t])
      | SourceBand b # _ \<Rightarrow> Inl TypeError)"

text \<open>Lines 201-212: the keyword arguments of the PNG writer.\<close>

definition png_kwargs :: "dataset \<Rightarrow> affine \<Rightarrow> nat \<Rightarrow> nat \<Rightarrow> band_entry list \<Rightarrow> meta" where
  "png_kwargs src_dataset t w h dst_bands =
     (meta.truncate src_dataset)
       \<lparr>crs := dst_crs, width := w, height := h, driver := ''PNG'', dtype := ''uint8'',
        transform := t, count := length dst_bands\<rparr>"

text \<open>
  Lines 229-231, with the names of the source:
  \<open>(bounds_bottom, bounds_right) = transform * (0, 0)\<close>,
  \<open>(bounds_top, bounds_left) = transform * (width, height)\<close>.
\<close>

definition raster_bounds :: "affine \<Rightarrow> nat \<Rightarrow> nat \<Rightarrow> real list list" where
  "raster_bounds t w h =
     (case affine_mul t (0, 0) of (bounds_bottom, bounds_right) \<Rightarrow>
      case affine_mul t (real w, real h) of (bounds_top, bounds_left) \<Rightarrow>
        [[bounds_left, bounds_bottom], [bounds_right, bounds_top]])"

section \<open>\<open>base64.b64encode\<close> and the memory file\<close>

definition b64_alphabet :: string where
  "b64_alphabet = ''ABCDEFGHIJKLMNOPQRSTUVWXYZabcdefghijklmnopqrstuvwxyz0123456789+/''"

definition b64_char :: "nat \<Rightarrow> char" where
  "b64_char n = b64_alphabet ! n"

text \<open>
  Standard base64 (RFC 4648, as Python's \<open>base64.b64encode\<close>): three bytes give four
  characters, a last group of one or two bytes is padded with \<open>=\<close>. The result of
  \<open>.decode()\<close> on these ASCII bytes is the same characters.
\<close>

fun b64encode :: "bytes \<Rightarrow> string" where
  "b64encode [] = []"
| "b64encode [x] =
     [b64_char (unat x div 4), b64_char ((unat x mod 4) * 16), CHR ''='', CHR ''='']"
| "b64encode [x, y] =
     [b64_char (unat x div 4), b64_char ((unat x mod 4) * 16 + unat y div 16),
      b64_char ((unat y mod 16) * 4), CHR ''='']"
| "b64encode (x # y # z # rest) =
     [b64_char (unat x div 4), b64_char ((unat x mod 4) * 16 + unat y div 16),
      b64_char ((unat y mod 16) * 4 + unat z div 64), b64_char (unat z mod 64)]
     @ b64encode rest"

fun index_of :: "'a \<Rightarrow> 'a list \<Rightarrow> nat option" where
  "index_of x [] = None"
| "index_of x (y # ys) = (if x = y then Some 0 else map_option Suc (index_of x ys))"

definition b64_index :: "char \<Rightarrow> nat option" where
  "b64_index c = index_of c b64_alphabet"

text \<open>
  The inverse reading, \<open>base64.b64decode\<close> on a padded string over the alphabet;
  \<open>None\<close> where the string is not one.
\<close>

fun b64decode :: "string \<Rightarrow> bytes option" where
  "b64decode [] = Some []"
| "b64decode (c0 # c1 # c2 # c3 # rest) =
     (case (b64_index c0, b64_index c1) of
        (Some s0, Some s1) \<Rightarrow>
          (if rest = [] \<and> c2 = CHR ''='' \<and> c3 = CHR ''=''
           then Some [of_nat (s0 * 4 + s1 div 16)]
           else (case b64_index c2 of
              None \<Rightarrow> None
            | Some s2 \<Rightarrow>
                (if rest = [] \<and> c3 = CHR ''=''
                 then Some [of_nat (s0 * 4 + s1 div 16), of_nat ((s1 mod 16) * 16 + s2 div 4)]
                 else (case b64_index c3 of
                    None \<Rightarrow> None
                  | Some s3 \<Rightarrow>
                      map_option
                        (\<lambda>bs. [of_nat (s0 * 4 + s1 div 16), of_nat ((s1 mod 16) * 16 + s2 div 4),
                               of_nat ((s2 mod 4) * 64 + s3)] @ bs)
                        (b64decode rest)))))
      | _ \<Rightarrow> None)"
| "b64decode _ = None"

definition data_uri_prefix :: string where
  "data_uri_prefix = ''data:image/png;base64,''"

text \<open>
  \<open>MemoryFile.read()\<close> is the read of a file object: it returns the bytes from the
  current position to the end of the file and leaves the position at the end.
\<close>

definition memfile_read :: "bytes \<Rightarrow> nat \<Rightarrow> bytes \<times> nat" where
  "memfile_read content pos = (drop pos content, length content)"

section \<open>\<open>raster_layer\<close> (lines 172-235)\<close>

text \<open>
  What a call leaves behind: whether it returned or raised, the attributes of the proxy
  as the call left them, and the resources that the statements of the method acquired
  and released, in order. \<open>rasterio.open\<close>, \<open>MemoryFile()\<close> and
  \<open>png_memfile.open\<close> acquire; the end of a \<open>with\<close> block releases, also when the
  block raises. What the garbage collector does with an object once no name refers to
  it is not a statement of the method and is not recorded.
\<close>

datatype resource = SourceDataset string | PngMemoryFile | PngWriter

datatype event = Acquire resource | Release resource

record outcome =
  result :: "error + unit"
  proxy :: GreppoAppProxy
  events :: "event list"

fun still_open :: "event list \<Rightarrow> resource list \<Rightarrow> resource list" where
  "still_open [] held = held"
| "still_open (Acquire r # es) held = still_open es (held @ [r])"
| "still_open (Release r # es) held = still_open es (remove1 r held)"

text \<open>Lines 178-199: no attribute of the proxy is touched.\<close>

definition warp ::
  "'w collaborators \<Rightarrow> dataset \<Rightarrow> error + (affine \<times> nat \<times> nat \<times> band_entry list)" where
  "warp C src_dataset =
     (case calculate_default_transform C (crs src_dataset) dst_crs (width src_dataset)
             (height src_dataset) (bounds src_dataset) of
        Inl e \<Rightarrow> Inl e
      | Inr (t, w, h) \<Rightarrow>
          (case reproject_bands C src_dataset of
             Inl e \<Rightarrow> Inl e
           | Inr bs \<Rightarrow>
               (case append_alpha (pad_bands src_dataset bs) of
                  Inl e \<Rightarrow> Inl e
                | Inr dst_bands \<Rightarrow> Inr (t, w, h, dst_bands))))"

definition png_colormap :: colormap where
  "png_colormap = [(0, (255, 0, 0, 255)), (255, (0, 0, 0, 255))]"

text \<open>\<open>dst_band[0][0]\<close>: the first plane of the array of a band.\<close>

definition band_plane :: "band_entry \<Rightarrow> error + plane" where
  "band_plane dst_band =
     (case dst_band of
        Reprojected arr t \<Rightarrow> (case arr of [] \<Rightarrow> Inl IndexError | p # _ \<Rightarrow> Inr p)
      | SourceBand b \<Rightarrow> Inl TypeError)"

text \<open>The loop of lines 216-221 over \<open>enumerate(dst_bands)\<close>.\<close>

fun write_loop :: "'w collaborators \<Rightarrow> 'w \<Rightarrow> nat \<Rightarrow> band_entry list \<Rightarrow> error + 'w" where
  "write_loop C dst_file i_1 [] = Inr dst_file"
| "write_loop C dst_file i_1 (dst_band # rest) =
     (case band_plane dst_band of
        Inl e \<Rightarrow> Inl e
      | Inr p \<Rightarrow>
          (case dst_write C dst_file p (i_1 + 1) of
             Inl e \<Rightarrow> Inl e
           | Inr f1 \<Rightarrow>
               (case dst_write_colormap C f1 (i_1 + 1) png_colormap of
                  Inl e \<Rightarrow> Inl e
                | Inr f2 \<Rightarrow> write_loop C f2 (i_1 + 1) rest)))"

text \<open>
  Lines 214-235. The first \<open>png_memfile.read()\<close> (line 223) runs inside the inner
  \<open>with\<close>, while the writer is open; the second (line 227) after that block has closed
  the writer, on the same memory file.
\<close>

definition with_memfile ::
  "'w collaborators \<Rightarrow> string \<Rightarrow> string \<Rightarrow> string \<Rightarrow> bool \<Rightarrow> meta \<Rightarrow> affine \<Rightarrow> nat \<Rightarrow> nat \<Rightarrow>
   band_entry list \<Rightarrow> GreppoAppProxy \<Rightarrow> outcome" where
  "with_memfile C uid title description visible kw t w h dst_bands self =
     (case memfile_open C kw of
        Inl e \<Rightarrow>
          \<lparr>result = Inl e, proxy = self,
           events = [Acquire PngMemoryFile, Release PngMemoryFile]\<rparr>
      | Inr dst_file \<Rightarrow>
          (case write_loop C dst_file 0 dst_bands of
             Inl e \<Rightarrow>
               \<lparr>result = Inl e, proxy = self,
                events = [Acquire PngMemoryFile, Acquire PngWriter, Release PngWriter,
                          Release PngMemoryFile]\<rparr>
           | Inr written \<Rightarrow>
               (let first_read = memfile_read (memfile_content C written) 0;
                    self1 = self\<lparr>raster_image_reference :=
                              raster_image_reference self @ [fst first_read]\<rparr>
                in (case dst_close C written of
                      Inl e \<Rightarrow>
                        \<lparr>result = Inl e, proxy = self1,
                         events = [Acquire PngMemoryFile, Acquire PngWriter, Release PngWriter,
                                   Release PngMemoryFile]\<rparr>
                    | Inr content \<Rightarrow>
                        (let second_read = memfile_read content (snd first_read);
                             url = data_uri_prefix @ b64encode (fst second_read)
                         in \<lparr>result = Inr (),
                             proxy = self1\<lparr>raster_layers := raster_layers self1 @
                               [RasterLayer uid title description url (raster_bounds t w h)
                                  visible]\<rparr>,
                             events = [Acquire PngMemoryFile, Acquire PngWriter,
                                       Release PngWriter, Release PngMemoryFile]\<rparr>)))))"

text \<open>
  The whole method. \<open>uid\<close> stands for the \<open>id\<close> of the source,
  \<open>uuid.uuid4().hex\<close>. \<open>rasterio.open\<close> is a plain
  assignment (line 175): the method has no \<open>with\<close> and no \<open>close()\<close> for it.
\<close>

definition raster_layer ::
  "'w collaborators \<Rightarrow> string \<Rightarrow> string \<Rightarrow> string \<Rightarrow> string \<Rightarrow> bool \<Rightarrow> GreppoAppProxy \<Rightarrow> outcome" where
  "raster_layer C uid file_path title description visible self =
     (case rasterio_open C file_path of
        Inl e \<Rightarrow> \<lparr>result = Inl e, proxy = self, events = []\<rparr>
      | Inr src_dataset \<Rightarrow>
          (case warp C src_dataset of
             Inl e \<Rightarrow>
               \<lparr>result = Inl e, proxy = self, events = [Acquire (SourceDataset file_path)]\<rparr>
           | Inr (t, w, h, dst_bands) \<Rightarrow>
               (let out = with_memfile C uid title description visible
                            (png_kwargs src_dataset t w h dst_bands) t w h dst_bands self
                in out\<lparr>events := Acquire (SourceDataset file_path) # events out\<rparr>)))"

text \<open>Lines 341-345.\<close>

definition gpo_reference_data :: "GreppoAppProxy \<Rightarrow> bytes option" where
  "gpo_reference_data self =
     (if length (raster_image_reference self) = 0 then None
      else Some (raster_image_reference self ! 0))"

section \<open>The other public methods\<close>

text \<open>
  Lines 161-166 of \<open>overlay_layer\<close>. \<open>data\<close> is the frame of the bounds
  \<open>(minx, miny, maxx, maxy)\<close> of its geometries; \<open>.min()\<close> and \<open>.max()\<close> run over
  the column. On a frame with no row pandas gives NaN, which \<open>real\<close> does not have:
  the statements below are about frames with at least one row.
\<close>

definition viewzoom_of :: "'w collaborators \<Rightarrow> gdf \<Rightarrow> error + (real \<times> real \<times> int)" where
  "viewzoom_of C data =
     (let minx = Min (set (map (\<lambda>(x0, y0, x1, y1). x0) data));
          miny = Min (set (map (\<lambda>(x0, y0, x1, y1). y0) data));
          maxx = Max (set (map (\<lambda>(x0, y0, x1, y1). x1) data));
          maxy = Max (set (map (\<lambda>(x0, y0, x1, y1). y1) data));
          bnds = [miny, minx, maxy, maxx]
      in (case osm_Map_z C bnds of
            Inl e \<Rightarrow> Inl e
          | Inr z \<Rightarrow> Inr ((miny + maxy) / 2, (minx + maxx) / 2, z)))"

definition overlay_layer ::
  "'w collaborators \<Rightarrow> string \<Rightarrow> gdf \<Rightarrow> string \<Rightarrow> string \<Rightarrow> kwargs \<Rightarrow> bool \<Rightarrow> GreppoAppProxy \<Rightarrow>
   (error + unit) \<times> GreppoAppProxy" where
  "overlay_layer C uid data title description style visible self =
     (case viewzoom_of C data of
        Inl e \<Rightarrow> (Inl e, self)
      | Inr viewzoom \<Rightarrow>
          (Inr (), self\<lparr>overlay_layers := overlay_layers self @
             [OverlayLayer uid data title description style visible viewzoom]\<rparr>))"

text \<open>Lines 94-132 and 267-274: the component is built and registered.\<close>

definition register_input ::
  "'w collaborators \<Rightarrow> component_kind \<Rightarrow> kwargs \<Rightarrow> GreppoAppProxy \<Rightarrow> (error + unit) \<times> GreppoAppProxy" where
  "register_input C kind kw self =
     (case convert_to_component_info C kind kw of
        Inl e \<Rightarrow> (Inl e, self)
      | Inr component_info \<Rightarrow>
          (Inr (), self\<lparr>registered_inputs := registered_inputs self @ [component_info]\<rparr>))"

text \<open>Lines 134-142.\<close>

definition ee_layer ::
  "'w collaborators \<Rightarrow> kwargs \<Rightarrow> GreppoAppProxy \<Rightarrow> (error + unit) \<times> GreppoAppProxy" where
  "ee_layer C kw self =
     (case ee_convert_to_dataclass C kw of
        Inl e \<Rightarrow> (Inl e, self)
      | Inr ee_layer_dataclass \<Rightarrow>
          (Inr (), self\<lparr>tile_layers := tile_layers self @ [ee_layer_dataclass]\<rparr>))"

definition tile_layer ::
  "'w collaborators \<Rightarrow> kwargs \<Rightarrow> GreppoAppProxy \<Rightarrow> (error + unit) \<times> GreppoAppProxy" where
  "tile_layer C kw self =
     (case convert_to_dataclass C kw of
        Inl e \<Rightarrow> (Inl e, self)
      | Inr tile_layer_dataclass \<Rightarrow>
          (Inr (), self\<lparr>tile_layers := tile_layers self @ [tile_layer_dataclass]\<rparr>))"

text \<open>Lines 144-155.\<close>

definition base_layer ::
  "string \<Rightarrow> string \<Rightarrow> bool \<Rightarrow> string \<Rightarrow> string list \<Rightarrow> string \<Rightarrow> GreppoAppProxy \<Rightarrow>
   (error + unit) \<times> GreppoAppProxy" where
  "base_layer uid nm visible url subdomains attribution self =
     (Inr (), self\<lparr>base_layers := base_layers self @
        [BaseLayer uid nm visible url subdomains attribution]\<rparr>)"

text \<open>
  Lines 237-262. \<open>file_path.split(".")[-1].lower()\<close>: the text after the last dot,
  with the letters A to Z lowered.
\<close>

definition lower_char :: "char \<Rightarrow> char" where
  "lower_char c =
     (case map_of (zip ''ABCDEFGHIJKLMNOPQRSTUVWXYZ'' ''abcdefghijklmnopqrstuvwxyz'') c of
        None \<Rightarrow> c
      | Some l \<Rightarrow> l)"

definition file_ext :: "string \<Rightarrow> string" where
  "file_ext file_path =
     map lower_char (rev (takeWhile (\<lambda>c. c \<noteq> CHR ''.'') (rev file_path)))"

definition image_layer ::
  "'w collaborators \<Rightarrow> string \<Rightarrow> string \<Rightarrow> string \<Rightarrow> string \<Rightarrow> bool \<Rightarrow> GreppoAppProxy \<Rightarrow>
   (error + unit) \<times> GreppoAppProxy" where
  "image_layer C uid file_path title description visible self =
     (if file_ext file_path \<notin> set [''png'', ''jpg'', ''jpeg''] then (Inl AssertionError, self)
      else (case image_to_jpeg C file_path of
              Inl e \<Rightarrow> (Inl e, self)
            | Inr buffered \<Rightarrow>
                (Inr (), self\<lparr>image_layers := image_layers self @
                   [ImageLayer uid title description (data_uri_prefix @ b64encode buffered)
                      [[14.760840184106792, 77.97900023926854],
                       [14.763995704693206, 77.98389492733145]] visible]\<rparr>)))"

text \<open>Lines 264-265.\<close>

definition update_inputs :: "kwargs \<Rightarrow> GreppoAppProxy \<Rightarrow> (error + unit) \<times> GreppoAppProxy" where
  "update_inputs new_inputs self = (Inr (), self\<lparr>inputs := new_inputs\<rparr>)"

section \<open>Sessions: sequences of calls on one proxy\<close>

text \<open>
  A call of a public method with its arguments. \<open>gpo_prepare_data\<close> and
  \<open>gpo_reference_data\<close> read the attributes and assign none.
\<close>

datatype call =
    Component component_kind kwargs
  | Register_input component_kind kwargs
  | Ee_layer kwargs
  | Tile_layer kwargs
  | Base_layer string string bool string "string list" string
  | Overlay_layer string gdf string string kwargs bool
  | Raster_layer string string string string bool
  | Image_layer string string string string bool
  | Update_inputs kwargs
  | Gpo_prepare_data
  | Gpo_reference_data

fun step :: "'w collaborators \<Rightarrow> call \<Rightarrow> GreppoAppProxy \<Rightarrow> (error + unit) \<times> GreppoAppProxy" where
  "step C (Component kind kw) self = register_input C kind kw self"
| "step C (Register_input kind kw) self = register_input C kind kw self"
| "step C (Ee_layer kw) self = ee_layer C kw self"
| "step C (Tile_layer kw) self = tile_layer C kw self"
| "step C (Base_layer uid nm visible url subdomains attribution) self =
     base_layer uid nm visible url subdomains attribution self"
| "step C (Overlay_layer uid data title description style visible) self =
     overlay_layer C uid data title description style visible self"
| "step C (Raster_layer uid file_path title description visible) self =
     (let out = raster_layer C uid file_path title description visible self
      in (result out, proxy out))"
| "step C (Image_layer uid file_path title description visible) self =
     image_layer C uid file_path title description visible self"
| "step C (Update_inputs new_inputs) self = update_inputs new_inputs self"
| "step C Gpo_prepare_data self = (Inr (), self)"
| "step C Gpo_reference_data self = (Inr (), self)"

text \<open>A script runs its calls in order and stops at the first one that raises.\<close>

fun run :: "'w collaborators \<Rightarrow> call list \<Rightarrow> GreppoAppProxy \<Rightarrow> (error + unit) \<times> GreppoAppProxy" where
  "run C [] self = (Inr (), self)"
| "run C (c # cs) self =
     (case step C c self of
        (Inl e, self') \<Rightarrow> (Inl e, self')
      | (Inr u, self') \<Rightarrow> run C cs self')"

text \<open>
  What one ingestion appends, taken from the call on the fresh proxy: the records and
  the reference buffers of a \<open>raster_layer\<close> call, nothing for the other calls.
\<close>

definition ingested_layers :: "'w collaborators \<Rightarrow> call \<Rightarrow> RasterLayer list" where
  "ingested_layers C c =
     (case c of
        Raster_layer uid file_path title description visible \<Rightarrow>
          raster_layers (proxy (raster_layer C uid file_path title description visible init))
      | _ \<Rightarrow> [])"

definition ingested_references :: "'w collaborators \<Rightarrow> call \<Rightarrow> bytes list" where
  "ingested_references C c =
     (case c of
        Raster_layer uid file_path title description visible \<Rightarrow>
          raster_image_reference
            (proxy (raster_layer C uid file_path title description visible init))
      | _ \<Rightarrow> [])"

fun is_raster_call :: "call \<Rightarrow> bool" where
  "is_raster_call (Raster_layer uid file_path title description visible) = True"
| "is_raster_call c = False"

section \<open>A concrete session\<close>

text \<open>
  A one-band raster \<open>a.tif\<close> (so the band count is not 3) and a three-band raster
  \<open>b.tif\<close>, whose default destination grid is the identity transform with width 10
  and height 10. The PNG writer keeps the image in its buffer and copies it into the
  memory file when it is closed, so the memory file is empty while the writer is open.
  Any other path cannot be opened.
\<close>

definition demo_dataset :: dataset where
  "demo_dataset =
     \<lparr>driver = ''GTiff'', dtype = ''float32'', nodata = None, width = 10, height = 10,
      count = 1, crs = ''EPSG:3857'', transform = affine_identity,
      name = ''a.tif'', bounds = (0, 0, 10, 10)\<rparr>"

definition demo_array :: ndarray where
  "demo_array = [[[Num (- 200000000), Num 5], [Num 200000000, NaN]]]"

definition demo_alpha :: ndarray where
  "demo_alpha = [[[Num 1, Num 1], [Num 0, Num 1]]]"

definition demo :: "plane list collaborators" where
  "demo =
     \<lparr>rasterio_open = (\<lambda>p. if p = ''a.tif'' then Inr demo_dataset
        else if p = ''b.tif'' then Inr (demo_dataset\<lparr>count := 3, name := ''b.tif''\<rparr>)
        else Inl UnreadableSource),
      calculate_default_transform = (\<lambda>src dst w h b. Inr (affine_identity, 10, 10)),
      reproject = (\<lambda>b c. Inr (demo_array, affine_identity)),
      memfile_open = (\<lambda>kw. Inr []),
      dst_write = (\<lambda>w p i. Inr (w @ [p])),
      dst_write_colormap = (\<lambda>w i cm. Inr w),
      memfile_content = (\<lambda>w. []),
      dst_close = (\<lambda>w. Inr [137, 80, 78, 71, of_nat (length w)]),
      osm_Map_z = (\<lambda>bnds. Inr 12),
      image_to_jpeg = (\<lambda>p. Inr [255, 216]),
      convert_to_component_info = (\<lambda>k kw. Inr (ComponentInfo ''component'' kw)),
      convert_to_dataclass = (\<lambda>kw. Inr (TileLayer kw)),
      ee_convert_to_dataclass = (\<lambda>kw. Inr (TileLayer kw))\<rparr>"

text \<open>The same, with a writer that puts every band into the memory file at once.\<close>

definition demo_direct :: "plane list collaborators" where
  "demo_direct = demo\<lparr>memfile_content := (\<lambda>w. [of_nat (length w)])\<rparr>"

text \<open>The same, with a raster whose bands cannot be resampled.\<close>

definition demo_failing_band :: "plane list collaborators" where
  "demo_failing_band = demo\<lparr>reproject := (\<lambda>b c. Inl ReprojectionFailed)\<rparr>"


section \<open>The default grid of \<open>reproject\<close>\<close>



section \<open>Lemmas on the stages of \<open>raster_layer\<close>\<close>

lemma reproject_loop_entries:
  "reproject_loop C ds ns acc = Inr bs \<Longrightarrow>
     length bs = length acc + length ns \<and> take (length acc) bs = acc \<and>
     (\<forall>j<length ns. \<exists>arr tr. reproject C (Band ds (ns ! j + 1)) dst_crs = Inr (arr, tr) \<and>
        bs ! (length acc + j) = Reprojected arr tr)"
proof (induction ns arbitrary: acc)
  case Nil
  then show ?case by simp
next
  case (Cons n ns)
  from Cons.prems obtain arr tr where
    r: "reproject C (Band ds (n + 1)) dst_crs = Inr (arr, tr)" and
    l: "reproject_loop C ds ns (acc @ [Reprojected arr tr]) = Inr bs"
    by (auto split: sum.splits)
  from Cons.IH [OF l] have
    len: "length bs = length acc + 1 + length ns" and
    tk: "take (length acc + 1) bs = acc @ [Reprojected arr tr]" and
    rest: "\<forall>j<length ns. \<exists>a t. reproject C (Band ds (ns ! j + 1)) dst_crs = Inr (a, t) \<and>
        bs ! (length acc + 1 + j) = Reprojected a t"
    by simp_all
  have tk0: "take (length acc) bs = acc"
  proof -
    have "take (length acc) (take (length acc + 1) bs) =
          take (length acc) (acc @ [Reprojected arr tr])"
      by (simp only: tk)
    then show ?thesis by simp
  qed
  have at: "bs ! length acc = Reprojected arr tr"
  proof -
    have "bs ! length acc = take (length acc + 1) bs ! length acc" by simp
    also have "\<dots> = (acc @ [Reprojected arr tr]) ! length acc" by (simp only: tk)
    finally show ?thesis by simp
  qed
  have "\<exists>a t. reproject C (Band ds ((n # ns) ! j + 1)) dst_crs = Inr (a, t) \<and>
        bs ! (length acc + j) = Reprojected a t" if "j < length (n # ns)" for j
  proof (cases j)
    case 0
    then show ?thesis using r at by simp
  next
    case (Suc k)
    then have "k < length ns" using that by simp
    with rest Suc show ?thesis by simp
  qed
  then show ?case using len tk0 by simp
qed

lemma reproject_bands_entries:
  assumes "reproject_bands C ds = Inr bs"
  shows "length bs = count ds"
    and "\<forall>i<count ds. \<exists>arr tr. reproject C (Band ds (i + 1)) dst_crs = Inr (arr, tr) \<and>
           bs ! i = Reprojected arr tr"
  using reproject_loop_entries [of C ds "[0 ..< count ds]" "[]" bs] assms
  by (simp_all add: reproject_bands_def)

lemma pad_bands_full: "count ds \<le> length bs \<Longrightarrow> pad_bands ds bs = bs"
  by (simp add: pad_bands_def)

lemma append_alpha_Inr:
  "append_alpha bs = Inr bs' \<Longrightarrow>
     \<exists>arr tr. bs ! 0 = Reprojected arr tr \<and> bs \<noteq> [] \<and>
       bs' = bs @ [Reprojected (np_where_alpha arr) tr]"
  by (auto simp: append_alpha_def split: list.splits band_entry.splits)

lemma warp_Inr:
  assumes "warp C ds = Inr (t, w, h, dst_bands)"
  shows "\<exists>bs arr tr.
     calculate_default_transform C (crs ds) dst_crs (width ds) (height ds) (bounds ds)
       = Inr (t, w, h) \<and>
     reproject_bands C ds = Inr bs \<and> pad_bands ds bs = bs \<and> length bs = count ds \<and>
     append_alpha (pad_bands ds bs) = Inr dst_bands \<and>
     bs ! 0 = Reprojected arr tr \<and> bs \<noteq> [] \<and>
     dst_bands = bs @ [Reprojected (np_where_alpha arr) tr]"
proof -
  from assms obtain bs where
    c: "calculate_default_transform C (crs ds) dst_crs (width ds) (height ds) (bounds ds)
          = Inr (t, w, h)"
    and r: "reproject_bands C ds = Inr bs"
    and a: "append_alpha (pad_bands ds bs) = Inr dst_bands"
    by (auto simp: warp_def split: sum.splits)
  have len: "length bs = count ds" using reproject_bands_entries(1) [OF r] .
  then have p: "pad_bands ds bs = bs" by (simp add: pad_bands_full)
  from append_alpha_Inr a p obtain arr tr where
    "bs ! 0 = Reprojected arr tr" "bs \<noteq> []"
    "dst_bands = bs @ [Reprojected (np_where_alpha arr) tr]"
    by metis
  with c r p len a show ?thesis by blast
qed

lemma raster_layer_Inr:
  assumes "result (raster_layer C uid p ti d v self) = Inr ()"
  shows "\<exists>ds t w h dst_bands dst_file written content.
     rasterio_open C p = Inr ds \<and> warp C ds = Inr (t, w, h, dst_bands) \<and>
     memfile_open C (png_kwargs ds t w h dst_bands) = Inr dst_file \<and>
     write_loop C dst_file 0 dst_bands = Inr written \<and>
     dst_close C written = Inr content \<and>
     proxy (raster_layer C uid p ti d v self) =
       self\<lparr>raster_image_reference := raster_image_reference self @ [memfile_content C written],
            raster_layers := raster_layers self @
              [RasterLayer uid ti d
                 (data_uri_prefix @
                    b64encode (drop (length (memfile_content C written)) content))
                 (raster_bounds t w h) v]\<rparr>"
  using assms
  by (auto simp: raster_layer_def with_memfile_def memfile_read_def Let_def
           split: sum.splits prod.splits)

lemma raster_layer_from_init:
  "result (raster_layer C uid p ti d v self) = result (raster_layer C uid p ti d v init) \<and>
   raster_layers (proxy (raster_layer C uid p ti d v self)) =
     raster_layers self @ raster_layers (proxy (raster_layer C uid p ti d v init)) \<and>
   raster_image_reference (proxy (raster_layer C uid p ti d v self)) =
     raster_image_reference self @
       raster_image_reference (proxy (raster_layer C uid p ti d v init))"
  by (auto simp: raster_layer_def with_memfile_def memfile_read_def Let_def init_def
           split: sum.splits prod.splits)

lemma demo_warp:
  "warp demo demo_dataset = Inr (affine_identity, 10, 10,
     [Reprojected demo_array affine_identity,
      Reprojected demo_alpha affine_identity])"
  by (simp add: warp_def demo_def demo_dataset_def reproject_bands_def pad_bands_def
      append_alpha_def np_where_alpha_def alpha_px_def demo_array_def demo_alpha_def)

lemma demo_lengths: "length demo_array = 1" "length demo_alpha = 1"
  by (simp_all add: demo_array_def demo_alpha_def)

lemma demo_run:
  "raster_layer demo ''id1'' ''a.tif'' ''t'' ''d'' True init =
    \<lparr>result = Inr (),
     proxy = init\<lparr>raster_layers :=
           [RasterLayer ''id1'' ''t'' ''d'' ''data:image/png;base64,iVBORwI=''
              [[10, 0], [0, 10]] True],
         raster_image_reference := [[]]\<rparr>,
     events = [Acquire (SourceDataset ''a.tif''), Acquire PngMemoryFile,
       Acquire PngWriter, Release PngWriter, Release PngMemoryFile]\<rparr>"
proof -
  have o: "rasterio_open demo ''a.tif'' = Inr demo_dataset" by (simp add: demo_def)
  have m: "memfile_open demo kw = Inr []" for kw by (simp add: demo_def)
  have w: "write_loop demo [] 0 [Reprojected demo_array affine_identity,
      Reprojected demo_alpha affine_identity] =
        Inr (demo_array @ demo_alpha)"
    by (simp add: demo_def band_plane_def demo_array_def demo_alpha_def)
  have c: "memfile_content demo x = []"
    "dst_close demo x = Inr [137, 80, 78, 71, of_nat (length x)]" for x
    by (simp_all add: demo_def)
  have r: "raster_bounds affine_identity 10 10 = [[10, 0], [0, 10]]"
    by (simp add: raster_bounds_def affine_identity_def)
  show ?thesis
    by (simp add: raster_layer_def o demo_warp with_memfile_def m w c memfile_read_def r
        data_uri_prefix_def init_def b64_char_def b64_alphabet_def demo_lengths
        del: write_loop.simps)
qed

section \<open>Band-count normalization\<close>

text \<open>
  Claim C3. Whenever the band list reaches the encoder, the list of reprojected bands
  has exactly \<open>count\<close> elements before the alpha band is appended and
  \<open>count + 1\<close> after; the padding of lines 192-194 appends nothing, for a band
  count of 3 and for any other, so the list is the one the reprojection loop built.
\<close>

theorem band_list_lengths:
  assumes "warp C ds = Inr (t, w, h, dst_bands)"
  shows "\<exists>bs. reproject_bands C ds = Inr bs \<and> length bs = count ds \<and>
           pad_bands ds bs = bs \<and> length (pad_bands ds bs) = count ds \<and>
           append_alpha (pad_bands ds bs) = Inr dst_bands \<and>
           length dst_bands = count ds + 1"
proof -
  from warp_Inr [OF assms] obtain bs arr tr where
    "reproject_bands C ds = Inr bs" "pad_bands ds bs = bs" "length bs = count ds"
    "append_alpha (pad_bands ds bs) = Inr dst_bands"
    "dst_bands = bs @ [Reprojected (np_where_alpha arr) tr]"
    by blast
  then show ?thesis by auto
qed

theorem band_list_lengths_witness:
  "warp demo demo_dataset = Inr (affine_identity, 10, 10,
     [Reprojected demo_array affine_identity,
      Reprojected demo_alpha affine_identity]) \<and>
   count demo_dataset \<noteq> 3 \<and>
   (\<exists>bs. reproject_bands demo demo_dataset = Inr bs \<and> length bs = 1 \<and>
      pad_bands demo_dataset bs = bs \<and> length (pad_bands demo_dataset bs) = 1 \<and>
      append_alpha (pad_bands demo_dataset bs) =
        Inr [Reprojected demo_array affine_identity,
             Reprojected demo_alpha affine_identity] \<and>
      length [Reprojected demo_array affine_identity,
              Reprojected demo_alpha affine_identity] = 1 + 1)"
  using demo_warp band_list_lengths [OF demo_warp]
  by (simp add: demo_dataset_def)

section \<open>A raster that cannot be opened\<close>

text \<open>
  Claim C7. When \<open>rasterio.open\<close> raises, the call raises that error and the proxy is
  as it was: nothing is appended to \<open>raster_layers\<close> and nothing to
  \<open>raster_image_reference\<close>.
\<close>

theorem unopenable_leaves_state:
  assumes "rasterio_open C file_path = Inl e"
  shows "result (raster_layer C uid file_path title description visible self) = Inl e \<and>
         proxy (raster_layer C uid file_path title description visible self) = self \<and>
         raster_layers (proxy (raster_layer C uid file_path title description visible self))
           = raster_layers self \<and>
         raster_image_reference
             (proxy (raster_layer C uid file_path title description visible self))
           = raster_image_reference self"
  using assms by (simp add: raster_layer_def)

theorem unopenable_leaves_state_witness:
  "rasterio_open demo ''missing.tif'' = Inl UnreadableSource \<and>
   result (raster_layer demo ''id1'' ''missing.tif'' ''t'' ''d'' True init)
     = Inl UnreadableSource \<and>
   proxy (raster_layer demo ''id1'' ''missing.tif'' ''t'' ''d'' True init) = init"
proof -
  have h: "rasterio_open demo ''missing.tif'' = Inl UnreadableSource"
    by (simp add: demo_def)
  show ?thesis
    using h unopenable_leaves_state [OF h, of "''id1''" "''t''" "''d''" True init] by simp
qed

section \<open>Bounds of a raster layer\<close>

text \<open>
  Claim C1, as it is written, at the identity transform with width 10 and height 10:
  the ingestion succeeds and the bounds of the record are \<open>[[10, 0], [0, 10]]\<close>, not
  \<open>[[0, 0], [10, 10]]\<close>.
\<close>

theorem identity_bounds_counterexample:
  "calculate_default_transform demo (crs demo_dataset) dst_crs (width demo_dataset)
     (height demo_dataset) (bounds demo_dataset) = Inr (affine_identity, 10, 10) \<and>
   result (raster_layer demo ''id1'' ''a.tif'' ''t'' ''d'' True init) = Inr () \<and>
   map rl_bounds (raster_layers (proxy (raster_layer demo ''id1'' ''a.tif'' ''t'' ''d'' True init)))
     = [[[10, 0], [0, 10]]] \<and>
   rl_bounds (last (raster_layers
       (proxy (raster_layer demo ''id1'' ''a.tif'' ''t'' ''d'' True init))))
     \<noteq> [[0, 0], [10, 10]]"
proof -
  have "calculate_default_transform demo (crs demo_dataset) dst_crs (width demo_dataset)
     (height demo_dataset) (bounds demo_dataset) = Inr (affine_identity, 10, 10)"
    by (simp add: demo_def)
  then show ?thesis by (simp add: demo_run)
qed


text \<open>
  Claim C1, amended. With \<open>(x0, y0) = transform * (0, 0)\<close> and
  \<open>(x1, y1) = transform * (width, height)\<close> for the transform, width and height that
  \<open>calculate_default_transform\<close> returned, the bounds of the record of a successful
  ingestion are \<open>[[y1, x0], [y0, x1]]\<close>: each pair has the second (latitude-like)
  coordinate first and takes its two values from different corners. At the identity
  transform with width 10 and height 10 they are \<open>[[10, 0], [0, 10]]\<close>.
\<close>

theorem raster_layer_bounds:
  assumes "result (raster_layer C uid file_path title description visible self) = Inr ()"
  shows "\<exists>ds t w h x0 y0 x1 y1.
     rasterio_open C file_path = Inr ds \<and>
     calculate_default_transform C (crs ds) dst_crs (width ds) (height ds) (bounds ds)
       = Inr (t, w, h) \<and>
     affine_mul t (0, 0) = (x0, y0) \<and> affine_mul t (real w, real h) = (x1, y1) \<and>
     rl_bounds (last (raster_layers
         (proxy (raster_layer C uid file_path title description visible self))))
       = [[y1, x0], [y0, x1]] \<and>
     (t = affine_identity \<and> w = 10 \<and> h = 10 \<longrightarrow>
        rl_bounds (last (raster_layers
            (proxy (raster_layer C uid file_path title description visible self))))
          = [[10, 0], [0, 10]])"
proof -
  from raster_layer_Inr [OF assms] obtain ds t w h dst_bands written content where
    o: "rasterio_open C file_path = Inr ds" and
    wp: "warp C ds = Inr (t, w, h, dst_bands)" and
    p: "proxy (raster_layer C uid file_path title description visible self) =
       self\<lparr>raster_image_reference := raster_image_reference self @ [memfile_content C written],
            raster_layers := raster_layers self @
              [RasterLayer uid title description
                 (data_uri_prefix @
                    b64encode (drop (length (memfile_content C written)) content))
                 (raster_bounds t w h) visible]\<rparr>"
    by blast
  from warp_Inr [OF wp] have
    c: "calculate_default_transform C (crs ds) dst_crs (width ds) (height ds) (bounds ds)
       = Inr (t, w, h)"
    by blast
  obtain x0 y0 where a0: "affine_mul t (0, 0) = (x0, y0)" by (cases "affine_mul t (0, 0)")
  obtain x1 y1 where a1: "affine_mul t (real w, real h) = (x1, y1)"
    by (cases "affine_mul t (real w, real h)")
  have b: "rl_bounds (last (raster_layers
         (proxy (raster_layer C uid file_path title description visible self))))
       = [[y1, x0], [y0, x1]]"
    by (simp add: p raster_bounds_def a0 a1)
  have i: "t = affine_identity \<and> w = 10 \<and> h = 10 \<longrightarrow> [[y1, x0], [y0, x1]] = [[10, 0], [0, 10]]"
    using a0 a1 by (auto simp: affine_identity_def)
  have i': "t = affine_identity \<and> w = 10 \<and> h = 10 \<longrightarrow>
        rl_bounds (last (raster_layers
            (proxy (raster_layer C uid file_path title description visible self))))
          = [[10, 0], [0, 10]]"
    using b i by simp
  from o c a0 a1 b i' show ?thesis by blast
qed


theorem raster_layer_bounds_witness:
  "result (raster_layer demo ''id1'' ''a.tif'' ''t'' ''d'' True init) = Inr () \<and>
   (\<exists>ds t w h x0 y0 x1 y1.
     rasterio_open demo ''a.tif'' = Inr ds \<and>
     calculate_default_transform demo (crs ds) dst_crs (width ds) (height ds) (bounds ds)
       = Inr (t, w, h) \<and>
     affine_mul t (0, 0) = (x0, y0) \<and> affine_mul t (real w, real h) = (x1, y1) \<and>
     rl_bounds (last (raster_layers
         (proxy (raster_layer demo ''id1'' ''a.tif'' ''t'' ''d'' True init))))
       = [[y1, x0], [y0, x1]] \<and>
     (t = affine_identity \<and> w = 10 \<and> h = 10 \<longrightarrow>
        rl_bounds (last (raster_layers
            (proxy (raster_layer demo ''id1'' ''a.tif'' ''t'' ''d'' True init))))
          = [[10, 0], [0, 10]]))"
proof -
  have h: "result (raster_layer demo ''id1'' ''a.tif'' ''t'' ''d'' True init) = Inr ()"
    by (simp add: demo_run)
  show ?thesis using h raster_layer_bounds [OF h] by blast
qed

section \<open>The viewport of an overlay layer\<close>

text \<open>
  Claim C6, as it is written, on the bounds of a single point, a rectangle with no
  width and no height: the computation returns a viewport and the layer is appended;
  it does not fail with \<open>EmptyGeometry\<close>.
\<close>

theorem degenerate_bounds_counterexample:
  "viewzoom_of demo [(3, 7, 3, 7)] = Inr (7, 3, 12) \<and>
   overlay_layer demo ''o1'' [(3, 7, 3, 7)] ''t'' ''d'' [] True init =
     (Inr (), init\<lparr>overlay_layers :=
        [OverlayLayer ''o1'' [(3, 7, 3, 7)] ''t'' ''d'' [] True (7, 3, 12)]\<rparr>) \<and>
   viewzoom_of demo [(3, 7, 3, 7)] \<noteq> Inl EmptyGeometry"
proof -
  have v: "viewzoom_of demo [(3, 7, 3, 7)] = Inr (7, 3, 12)"
    by (simp add: viewzoom_of_def demo_def)
  then show ?thesis by (simp add: overlay_layer_def init_def)
qed

text \<open>
  Claim C6, amended. The viewport computation checks nothing about the rectangle. For
  every frame with at least one row, degenerate or not, it returns the midpoints
  \<open>((miny + maxy) / 2, (minx + maxx) / 2)\<close> with the zoom that \<open>osm.Map\<close> gives for
  \<open>[miny, minx, maxy, maxx]\<close>, and it fails exactly when \<open>osm.Map\<close> fails, with that
  error.
\<close>

theorem viewzoom_of_unchecked:
  assumes "data \<noteq> []"
  shows "\<exists>minx miny maxx maxy.
     minx = Min (set (map (\<lambda>(x0, y0, x1, y1). x0) data)) \<and>
     miny = Min (set (map (\<lambda>(x0, y0, x1, y1). y0) data)) \<and>
     maxx = Max (set (map (\<lambda>(x0, y0, x1, y1). x1) data)) \<and>
     maxy = Max (set (map (\<lambda>(x0, y0, x1, y1). y1) data)) \<and>
     (\<forall>z. osm_Map_z C [miny, minx, maxy, maxx] = Inr z \<longrightarrow>
        viewzoom_of C data = Inr ((miny + maxy) / 2, (minx + maxx) / 2, z)) \<and>
     (\<forall>e. viewzoom_of C data = Inl e \<longleftrightarrow> osm_Map_z C [miny, minx, maxy, maxx] = Inl e)"
  by (auto simp: viewzoom_of_def Let_def split: sum.splits)

theorem viewzoom_of_unchecked_witness:
  "[(0, 0, 10, 20)] \<noteq> ([] :: gdf) \<and> osm_Map_z demo [0, 0, 20, 10] = Inr 12 \<and>
   viewzoom_of demo [(0, 0, 10, 20)] = Inr (10, 5, 12)"
proof -
  have n: "[(0, 0, 10, 20)] \<noteq> ([] :: gdf)" by simp
  have z: "osm_Map_z demo [0, 0, 20, 10] = Inr 12" by (simp add: demo_def)
  from viewzoom_of_unchecked [OF n, of demo] z
  have "viewzoom_of demo [(0, 0, 10, 20)] = Inr (10, 5, 12)" by simp
  with n z show ?thesis by simp
qed

section \<open>Lemmas on sessions\<close>

lemma ingested_not_raster:
  "\<not> is_raster_call c \<Longrightarrow> ingested_layers C c = [] \<and> ingested_references C c = []"
  by (cases c) (simp_all add: ingested_layers_def ingested_references_def)

lemma step_other_lists:
  "\<not> is_raster_call c \<Longrightarrow>
     raster_layers (snd (step C c self)) = raster_layers self \<and>
     raster_image_reference (snd (step C c self)) = raster_image_reference self"
  by (cases c)
     (simp_all add: register_input_def ee_layer_def tile_layer_def base_layer_def
        overlay_layer_def image_layer_def update_inputs_def split: sum.splits)

lemma raster_layer_one_each:
  assumes "result (raster_layer C uid p ti d v self) = Inr ()"
  shows "\<exists>r b. raster_layers (proxy (raster_layer C uid p ti d v init)) = [r] \<and>
           raster_image_reference (proxy (raster_layer C uid p ti d v init)) = [b]"
proof -
  have "result (raster_layer C uid p ti d v init) = Inr ()"
    using assms raster_layer_from_init [of C uid p ti d v self] by simp
  from raster_layer_Inr [OF this] show ?thesis by (auto simp: init_def)
qed

lemma step_lists:
  assumes "fst (step C c self) = Inr ()"
  shows "raster_layers (snd (step C c self)) = raster_layers self @ ingested_layers C c \<and>
         raster_image_reference (snd (step C c self)) =
           raster_image_reference self @ ingested_references C c \<and>
         (is_raster_call c \<longrightarrow>
            length (ingested_layers C c) = 1 \<and> length (ingested_references C c) = 1)"
proof (cases "is_raster_call c")
  case False
  then show ?thesis using step_other_lists [of c C self] ingested_not_raster [of c C] by simp
next
  case True
  then obtain uid p ti d v where c: "c = Raster_layer uid p ti d v" by (cases c) simp_all
  have ok: "result (raster_layer C uid p ti d v self) = Inr ()"
    using assms by (simp add: c Let_def)
  from raster_layer_one_each [OF ok] obtain r b where
    "raster_layers (proxy (raster_layer C uid p ti d v init)) = [r]"
    "raster_image_reference (proxy (raster_layer C uid p ti d v init)) = [b]"
    by blast
  then show ?thesis
    using raster_layer_from_init [of C uid p ti d v self]
    by (simp add: c Let_def ingested_layers_def ingested_references_def)
qed

lemma run_lists:
  "fst (run C cs self) = Inr () \<Longrightarrow>
     raster_layers (snd (run C cs self)) =
       raster_layers self @ concat (map (ingested_layers C) cs) \<and>
     raster_image_reference (snd (run C cs self)) =
       raster_image_reference self @ concat (map (ingested_references C) cs) \<and>
     (\<forall>c\<in>set cs. is_raster_call c \<longrightarrow>
        length (ingested_layers C c) = 1 \<and> length (ingested_references C c) = 1)"
proof (induction cs arbitrary: self)
  case Nil
  then show ?case by simp
next
  case (Cons c cs)
  obtain r s' where st: "step C c self = (r, s')" by (cases "step C c self")
  with Cons.prems have r: "r = Inr ()" and rest: "fst (run C cs s') = Inr ()"
    by (auto split: sum.splits)
  have run: "run C (c # cs) self = run C cs s'" using st r by simp
  from step_lists [of C c self] st r have
    s1: "raster_layers s' = raster_layers self @ ingested_layers C c" and
    s2: "raster_image_reference s' = raster_image_reference self @ ingested_references C c" and
    s3: "is_raster_call c \<longrightarrow>
            length (ingested_layers C c) = 1 \<and> length (ingested_references C c) = 1"
    by simp_all
  from Cons.IH [OF rest] s1 s2 s3 show ?case by (simp add: run del: run.simps)
qed

lemma concat_singletons:
  "(\<forall>x\<in>set xs. if P x then length (f x) = 1 else f x = []) \<Longrightarrow>
     length (concat (map f xs)) = length (filter P xs) \<and>
     (\<forall>i<length (filter P xs). f (filter P xs ! i) = [concat (map f xs) ! i])"
proof (induction xs)
  case Nil
  then show ?case by simp
next
  case (Cons x xs)
  then have IH: "length (concat (map f xs)) = length (filter P xs)"
    "\<forall>i<length (filter P xs). f (filter P xs ! i) = [concat (map f xs) ! i]"
    by simp_all
  show ?case
  proof (cases "P x")
    case False
    with Cons.prems have "f x = []" by simp
    with False IH show ?thesis by simp
  next
    case True
    with Cons.prems have "length (f x) = 1" by simp
    then obtain y where y: "f x = [y]" by (cases "f x") simp_all
    have "f (filter P (x # xs) ! i) = [concat (map f (x # xs)) ! i]"
      if "i < length (filter P (x # xs))" for i
      using that True y IH(2) by (cases i) simp_all
    then show ?thesis using True y IH(1) by simp
  qed
qed

lemma run_aligned:
  assumes "fst (run C cs init) = Inr ()"
  shows "raster_layers (snd (run C cs init)) = concat (map (ingested_layers C) cs)"
    and "raster_image_reference (snd (run C cs init)) = concat (map (ingested_references C) cs)"
    and "length (concat (map (ingested_layers C) cs)) = length (filter is_raster_call cs)"
    and "length (concat (map (ingested_references C) cs)) = length (filter is_raster_call cs)"
    and "\<forall>i<length (filter is_raster_call cs).
           ingested_layers C (filter is_raster_call cs ! i)
             = [concat (map (ingested_layers C) cs) ! i]"
    and "\<forall>i<length (filter is_raster_call cs).
           ingested_references C (filter is_raster_call cs ! i)
             = [concat (map (ingested_references C) cs) ! i]"
proof -
  from run_lists [OF assms] have
    a: "raster_layers (snd (run C cs init)) = concat (map (ingested_layers C) cs)" and
    b: "raster_image_reference (snd (run C cs init)) = concat (map (ingested_references C) cs)"
    and c: "\<forall>c\<in>set cs. is_raster_call c \<longrightarrow>
        length (ingested_layers C c) = 1 \<and> length (ingested_references C c) = 1"
    by (simp_all add: init_def)
  have l: "\<forall>x\<in>set cs. if is_raster_call x then length (ingested_layers C x) = 1
             else ingested_layers C x = []"
    using c ingested_not_raster by auto
  have r: "\<forall>x\<in>set cs. if is_raster_call x then length (ingested_references C x) = 1
             else ingested_references C x = []"
    using c ingested_not_raster by auto
  show "raster_layers (snd (run C cs init)) = concat (map (ingested_layers C) cs)" by (rule a)
  show "raster_image_reference (snd (run C cs init)) = concat (map (ingested_references C) cs)"
    by (rule b)
  show "length (concat (map (ingested_layers C) cs)) = length (filter is_raster_call cs)"
    using concat_singletons [OF l] by simp
  show "length (concat (map (ingested_references C) cs)) = length (filter is_raster_call cs)"
    using concat_singletons [OF r] by simp
  show "\<forall>i<length (filter is_raster_call cs).
           ingested_layers C (filter is_raster_call cs ! i)
             = [concat (map (ingested_layers C) cs) ! i]"
    using concat_singletons [OF l] by simp
  show "\<forall>i<length (filter is_raster_call cs).
           ingested_references C (filter is_raster_call cs ! i)
             = [concat (map (ingested_references C) cs) ! i]"
    using concat_singletons [OF r] by simp
qed

lemma demo_result:
  "result (raster_layer demo uid ''a.tif'' ti d v self) = Inr ()"
proof -
  have o: "rasterio_open demo ''a.tif'' = Inr demo_dataset" by (simp add: demo_def)
  have m: "memfile_open demo kw = Inr []" for kw by (simp add: demo_def)
  have w: "write_loop demo [] 0 [Reprojected demo_array affine_identity,
      Reprojected demo_alpha affine_identity] =
        Inr (demo_array @ demo_alpha)"
    by (simp add: demo_def band_plane_def demo_array_def demo_alpha_def)
  have c: "dst_close demo x = Inr [137, 80, 78, 71, of_nat (length x)]" for x
    by (simp_all add: demo_def)
  show ?thesis
    by (simp add: raster_layer_def o demo_warp with_memfile_def m w c Let_def
        demo_lengths
        del: write_loop.simps)
qed

lemma demo_direct_a:
  "result (raster_layer demo_direct uid ''a.tif'' ti d v self) = Inr () \<and>
   raster_image_reference (proxy (raster_layer demo_direct uid ''a.tif'' ti d v self)) =
     raster_image_reference self @ [[2]]"
proof -
  have o: "rasterio_open demo_direct ''a.tif'' = Inr demo_dataset"
    by (simp add: demo_def demo_direct_def)
  have wp: "warp demo_direct demo_dataset = Inr (affine_identity, 10, 10,
     [Reprojected demo_array affine_identity,
      Reprojected demo_alpha affine_identity])"
    by (simp add: warp_def demo_direct_def demo_def demo_dataset_def reproject_bands_def
      pad_bands_def append_alpha_def np_where_alpha_def alpha_px_def demo_array_def demo_alpha_def)
  have m: "memfile_open demo_direct kw = Inr []" for kw by (simp add: demo_def demo_direct_def)
  have w: "write_loop demo_direct [] 0 [Reprojected demo_array affine_identity,
      Reprojected demo_alpha affine_identity] =
        Inr (demo_array @ demo_alpha)"
    by (simp add: demo_def demo_direct_def band_plane_def demo_array_def demo_alpha_def)
  have c: "dst_close demo_direct x = Inr [137, 80, 78, 71, of_nat (length x)]"
    "memfile_content demo_direct x = [of_nat (length x)]" for x
    by (simp_all add: demo_def demo_direct_def)
  show ?thesis
    by (simp add: raster_layer_def o wp with_memfile_def m w c Let_def memfile_read_def
        demo_lengths
        del: write_loop.simps)
qed

lemma demo_direct_b:
  "result (raster_layer demo_direct uid ''b.tif'' ti d v self) = Inr () \<and>
   raster_image_reference (proxy (raster_layer demo_direct uid ''b.tif'' ti d v self)) =
     raster_image_reference self @ [[4]]"
proof -
  have o: "rasterio_open demo_direct ''b.tif'' = Inr (demo_dataset\<lparr>count := 3, name := ''b.tif''\<rparr>)"
    by (simp add: demo_def demo_direct_def)
  have u: "[0..<3] = [0, 1, 2]" by (simp add: upt_rec)
  have wp: "warp demo_direct (demo_dataset\<lparr>count := 3, name := ''b.tif''\<rparr>) =
     Inr (affine_identity, 10, 10,
     [Reprojected demo_array affine_identity, Reprojected demo_array affine_identity,
      Reprojected demo_array affine_identity,
      Reprojected demo_alpha affine_identity])"
    by (simp add: warp_def demo_direct_def demo_def demo_dataset_def reproject_bands_def u
      pad_bands_def append_alpha_def np_where_alpha_def alpha_px_def demo_array_def demo_alpha_def)
  have m: "memfile_open demo_direct kw = Inr []" for kw by (simp add: demo_def demo_direct_def)
  have w: "write_loop demo_direct [] 0 [Reprojected demo_array affine_identity,
      Reprojected demo_array affine_identity, Reprojected demo_array affine_identity,
      Reprojected demo_alpha affine_identity] =
        Inr (demo_array @ demo_array @ demo_array @ demo_alpha)"
    by (simp add: demo_def demo_direct_def band_plane_def demo_array_def demo_alpha_def)
  have c: "dst_close demo_direct x = Inr [137, 80, 78, 71, of_nat (length x)]"
    "memfile_content demo_direct x = [of_nat (length x)]" for x
    by (simp_all add: demo_def demo_direct_def)
  show ?thesis
    by (simp add: raster_layer_def o wp with_memfile_def m w c Let_def memfile_read_def
        demo_lengths
        del: write_loop.simps)
qed

section \<open>The reference image\<close>

text \<open>
  Claim C8. On the fresh proxy \<open>gpo_reference_data\<close> returns \<open>None\<close>, which is not
  an empty byte string. After a session of successful calls it returns \<open>None\<close> when
  the session ingested no raster, and otherwise the buffer that the first
  \<open>raster_layer\<close> call of the session recorded, whatever was ingested later.
\<close>

theorem reference_data_first:
  assumes "fst (run C cs init) = Inr ()"
  shows "gpo_reference_data init = None \<and> gpo_reference_data init \<noteq> Some [] \<and>
     (filter is_raster_call cs = [] \<longrightarrow> gpo_reference_data (snd (run C cs init)) = None) \<and>
     (\<forall>c rest. filter is_raster_call cs = c # rest \<longrightarrow>
        (\<exists>b. ingested_references C c = [b] \<and>
             gpo_reference_data (snd (run C cs init)) = Some b))"
proof -
  note al = run_aligned [OF assms]
  have len: "length (raster_image_reference (snd (run C cs init))) =
      length (filter is_raster_call cs)"
    using al(2) al(4) by simp
  have 1: "gpo_reference_data init = None" by (simp add: gpo_reference_data_def init_def)
  have 2: "filter is_raster_call cs = [] \<longrightarrow> gpo_reference_data (snd (run C cs init)) = None"
    using len by (simp add: gpo_reference_data_def)
  have 3: "\<exists>b. ingested_references C c = [b] \<and>
             gpo_reference_data (snd (run C cs init)) = Some b"
    if f: "filter is_raster_call cs = c # rest" for c rest
  proof -
    have pos: "0 < length (filter is_raster_call cs)" using f by simp
    have "ingested_references C (filter is_raster_call cs ! 0) =
        [concat (map (ingested_references C) cs) ! 0]"
      using al(6) [rule_format, OF pos] .
    then have "ingested_references C c = [raster_image_reference (snd (run C cs init)) ! 0]"
      using f al(2) by simp
    moreover have "gpo_reference_data (snd (run C cs init)) =
        Some (raster_image_reference (snd (run C cs init)) ! 0)"
      using len f by (simp add: gpo_reference_data_def)
    ultimately show ?thesis by simp
  qed
  from 1 2 3 show ?thesis by simp
qed

theorem reference_data_first_witness:
  "fst (run demo_direct
     [Base_layer ''b1'' ''osm'' True ''u'' [] ''a'',
      Raster_layer ''id1'' ''a.tif'' ''t'' ''d'' True,
      Raster_layer ''id2'' ''b.tif'' ''t'' ''d'' True] init) = Inr () \<and>
   ingested_references demo_direct (Raster_layer ''id1'' ''a.tif'' ''t'' ''d'' True) = [[2]] \<and>
   ingested_references demo_direct (Raster_layer ''id2'' ''b.tif'' ''t'' ''d'' True) = [[4]] \<and>
   gpo_reference_data (snd (run demo_direct
     [Base_layer ''b1'' ''osm'' True ''u'' [] ''a'',
      Raster_layer ''id1'' ''a.tif'' ''t'' ''d'' True,
      Raster_layer ''id2'' ''b.tif'' ''t'' ''d'' True] init)) = Some [2]"
proof -
  let ?cs = "[Base_layer ''b1'' ''osm'' True ''u'' [] ''a'',
      Raster_layer ''id1'' ''a.tif'' ''t'' ''d'' True,
      Raster_layer ''id2'' ''b.tif'' ''t'' ''d'' True]"
  have h: "fst (run demo_direct ?cs init) = Inr ()"
    by (simp add: base_layer_def Let_def demo_direct_a demo_direct_b)
  have a: "ingested_references demo_direct (Raster_layer ''id1'' ''a.tif'' ''t'' ''d'' True) = [[2]]"
    using demo_direct_a [of "''id1''" "''t''" "''d''" True init]
    by (simp add: ingested_references_def init_def)
  have b: "ingested_references demo_direct (Raster_layer ''id2'' ''b.tif'' ''t'' ''d'' True) = [[4]]"
    using demo_direct_b [of "''id2''" "''t''" "''d''" True init]
    by (simp add: ingested_references_def init_def)
  have f: "filter is_raster_call ?cs =
     Raster_layer ''id1'' ''a.tif'' ''t'' ''d'' True #
       [Raster_layer ''id2'' ''b.tif'' ''t'' ''d'' True]"
    by simp
  from reference_data_first [OF h] f a
  have "gpo_reference_data (snd (run demo_direct ?cs init)) = Some [2]"
    by (metis list.inject)
  with h a b show ?thesis by simp
qed

section \<open>The two lists of a session\<close>

text \<open>
  Claim C10. A call other than \<open>raster_layer\<close> leaves \<open>raster_layers\<close> and
  \<open>raster_image_reference\<close> as they are; a successful \<open>raster_layer\<close> call appends
  exactly one element to each. After a session of successful calls the two lists have
  the same length, the number of ingestions, and their elements at position \<open>i\<close> are
  the record and the buffer of the \<open>i\<close>-th ingestion of the session.
\<close>

theorem layers_and_references_aligned:
  "(\<forall>c self. \<not> is_raster_call c \<longrightarrow>
      raster_layers (snd (step C c self)) = raster_layers self \<and>
      raster_image_reference (snd (step C c self)) = raster_image_reference self) \<and>
   (\<forall>uid file_path title description visible self.
      result (raster_layer C uid file_path title description visible self) = Inr () \<longrightarrow>
      (\<exists>r b.
         raster_layers (proxy (raster_layer C uid file_path title description visible self))
           = raster_layers self @ [r] \<and>
         raster_image_reference
             (proxy (raster_layer C uid file_path title description visible self))
           = raster_image_reference self @ [b])) \<and>
   (fst (run C cs init) = Inr () \<longrightarrow>
      length (raster_layers (snd (run C cs init))) =
        length (raster_image_reference (snd (run C cs init))) \<and>
      length (raster_layers (snd (run C cs init))) = length (filter is_raster_call cs) \<and>
      (\<forall>i<length (filter is_raster_call cs).
         ingested_layers C (filter is_raster_call cs ! i)
           = [raster_layers (snd (run C cs init)) ! i] \<and>
         ingested_references C (filter is_raster_call cs ! i)
           = [raster_image_reference (snd (run C cs init)) ! i]))"
proof -
  have 1: "\<forall>c self. \<not> is_raster_call c \<longrightarrow>
      raster_layers (snd (step C c self)) = raster_layers self \<and>
      raster_image_reference (snd (step C c self)) = raster_image_reference self"
    using step_other_lists by blast
  have 2: "\<exists>r b.
         raster_layers (proxy (raster_layer C uid file_path title description visible self))
           = raster_layers self @ [r] \<and>
         raster_image_reference
             (proxy (raster_layer C uid file_path title description visible self))
           = raster_image_reference self @ [b]"
    if "result (raster_layer C uid file_path title description visible self) = Inr ()"
    for uid file_path title description visible self
    using raster_layer_Inr [OF that] by auto
  have 3: "length (raster_layers (snd (run C cs init))) =
        length (raster_image_reference (snd (run C cs init))) \<and>
      length (raster_layers (snd (run C cs init))) = length (filter is_raster_call cs) \<and>
      (\<forall>i<length (filter is_raster_call cs).
         ingested_layers C (filter is_raster_call cs ! i)
           = [raster_layers (snd (run C cs init)) ! i] \<and>
         ingested_references C (filter is_raster_call cs ! i)
           = [raster_image_reference (snd (run C cs init)) ! i])"
    if ok: "fst (run C cs init) = Inr ()"
    using run_aligned [OF ok] by simp
  from 1 2 3 show ?thesis by blast
qed

theorem layers_and_references_aligned_witness:
  "fst (run demo
     [Base_layer ''b1'' ''osm'' True ''u'' [] ''a'',
      Raster_layer ''id1'' ''a.tif'' ''t'' ''d'' True,
      Update_inputs [],
      Raster_layer ''id2'' ''a.tif'' ''t2'' ''d'' False] init) = Inr () \<and>
   length (raster_layers (snd (run demo
     [Base_layer ''b1'' ''osm'' True ''u'' [] ''a'',
      Raster_layer ''id1'' ''a.tif'' ''t'' ''d'' True,
      Update_inputs [],
      Raster_layer ''id2'' ''a.tif'' ''t2'' ''d'' False] init))) = 2 \<and>
   length (raster_image_reference (snd (run demo
     [Base_layer ''b1'' ''osm'' True ''u'' [] ''a'',
      Raster_layer ''id1'' ''a.tif'' ''t'' ''d'' True,
      Update_inputs [],
      Raster_layer ''id2'' ''a.tif'' ''t2'' ''d'' False] init))) = 2"
proof -
  let ?cs = "[Base_layer ''b1'' ''osm'' True ''u'' [] ''a'',
      Raster_layer ''id1'' ''a.tif'' ''t'' ''d'' True,
      Update_inputs [],
      Raster_layer ''id2'' ''a.tif'' ''t2'' ''d'' False]"
  have h: "fst (run demo ?cs init) = Inr ()"
    by (simp add: base_layer_def update_inputs_def Let_def demo_result)
  from layers_and_references_aligned [of demo ?cs] h
  have "length (raster_layers (snd (run demo ?cs init))) =
        length (raster_image_reference (snd (run demo ?cs init))) \<and>
      length (raster_layers (snd (run demo ?cs init))) = length (filter is_raster_call ?cs)"
    by blast
  with h show ?thesis by simp
qed

section \<open>The alpha band\<close>

text \<open>
  Claim C2, as it is written, on the band \<open>[[-2e8, 5], [2e8, NaN]]\<close>: the alpha band is
  \<open>[[1, 1], [0, 1]]\<close>. Its element for the pixel \<open>-2e8\<close> is 1, which is not in
  \<open>{0, 255}\<close>, and it is the value of the pixels that are kept although the magnitude
  of \<open>-2e8\<close> exceeds \<open>1e8\<close>.
\<close>

theorem alpha_band_counterexample:
  "warp demo demo_dataset = Inr (affine_identity, 10, 10,
     [Reprojected [[[Num (- 200000000), Num 5], [Num 200000000, NaN]]] affine_identity,
      Reprojected [[[Num 1, Num 1], [Num 0, Num 1]]] affine_identity]) \<and>
   Num 1 \<notin> {Num 0, Num 255} \<and> \<not> \<bar>- 200000000 :: real\<bar> \<le> 100000000"
  using demo_warp by (simp add: demo_array_def demo_alpha_def)

text \<open>
  Claim C2, amended. In the band list that reaches the encoder the last entry is the
  alpha band: it has the shape and the transform of band 0 and takes two values, 0 and
  one value \<open>v\<close> other than 0; its element is 0 exactly where the pixel of band 0 is
  greater than \<open>1e8\<close> in numpy's comparison (signed, and false for NaN), and \<open>v\<close> at
  every other pixel, NaN included.
\<close>

theorem alpha_band_values:
  assumes "warp C ds = Inr (t, w, h, dst_bands)"
  shows "\<exists>arr tr alpha v.
     dst_bands ! 0 = Reprojected arr tr \<and> last dst_bands = Reprojected alpha tr \<and>
     v \<noteq> Num 0 \<and>
     alpha = map (map (map (\<lambda>p. if px_gt p 100000000 then Num 0 else v))) arr \<and>
     (\<forall>k<length arr. \<forall>r<length (arr ! k). \<forall>c<length (arr ! k ! r).
        alpha ! k ! r ! c \<in> {Num 0, v} \<and>
        (alpha ! k ! r ! c = Num 0 \<longleftrightarrow> px_gt (arr ! k ! r ! c) 100000000))"
proof -
  from warp_Inr [OF assms] obtain bs arr tr where
    b0: "bs ! 0 = Reprojected arr tr" and ne: "bs \<noteq> []" and
    d: "dst_bands = bs @ [Reprojected (np_where_alpha arr) tr]"
    by blast
  have f: "alpha_px = (\<lambda>p. if px_gt p 100000000 then Num 0 else Num 1)"
    by (auto simp: alpha_px_def fun_eq_iff)
  have 1: "dst_bands ! 0 = Reprojected arr tr" using b0 ne d by (simp add: nth_append)
  have 2: "last dst_bands = Reprojected (np_where_alpha arr) tr" using d by simp
  have 3: "np_where_alpha arr =
      map (map (map (\<lambda>p. if px_gt p 100000000 then Num 0 else Num 1))) arr"
    by (simp add: np_where_alpha_def f)
  have 4: "\<forall>k<length arr. \<forall>r<length (arr ! k). \<forall>c<length (arr ! k ! r).
        np_where_alpha arr ! k ! r ! c \<in> {Num 0, Num 1} \<and>
        (np_where_alpha arr ! k ! r ! c = Num 0 \<longleftrightarrow> px_gt (arr ! k ! r ! c) 100000000)"
    by (simp add: 3)
  have "Num 1 \<noteq> Num 0" by simp
  with 1 2 3 4 show ?thesis by blast
qed

theorem alpha_band_values_witness:
  "warp demo demo_dataset = Inr (affine_identity, 10, 10,
     [Reprojected demo_array affine_identity, Reprojected demo_alpha affine_identity]) \<and>
   (\<exists>v. v \<noteq> Num 0 \<and>
      demo_alpha = map (map (map (\<lambda>p. if px_gt p 100000000 then Num 0 else v))) demo_array)"
proof -
  from alpha_band_values [OF demo_warp] obtain arr tr alpha v where
    "[Reprojected demo_array affine_identity,
      Reprojected demo_alpha affine_identity] ! 0 = Reprojected arr tr"
    "last [Reprojected demo_array affine_identity,
      Reprojected demo_alpha affine_identity] = Reprojected alpha tr"
    "v \<noteq> Num 0" "alpha = map (map (map (\<lambda>p. if px_gt p 100000000 then Num 0 else v))) arr"
    by blast
  then have e: "v \<noteq> Num 0 \<and>
      demo_alpha = map (map (map (\<lambda>p. if px_gt p 100000000 then Num 0 else v))) demo_array"
    by simp
  have ex: "\<exists>v. v \<noteq> Num 0 \<and>
      demo_alpha = map (map (map (\<lambda>p. if px_gt p 100000000 then Num 0 else v))) demo_array"
    by (rule exI [of _ v]) (rule e)
  show ?thesis by (rule conjI [OF demo_warp ex])
qed

section \<open>The handle of the source raster\<close>

text \<open>
  Claim C9, as it is written, on a raster that opens and whose first band cannot be
  resampled: the call raises, and the only statement that touched the source dataset
  is the one that opened it.
\<close>

theorem source_handle_counterexample:
  "rasterio_open demo_failing_band ''a.tif'' = Inr demo_dataset \<and>
   result (raster_layer demo_failing_band ''id1'' ''a.tif'' ''t'' ''d'' True init)
     = Inl ReprojectionFailed \<and>
   events (raster_layer demo_failing_band ''id1'' ''a.tif'' ''t'' ''d'' True init)
     = [Acquire (SourceDataset ''a.tif'')] \<and>
   still_open (events (raster_layer demo_failing_band ''id1'' ''a.tif'' ''t'' ''d'' True init)) []
     = [SourceDataset ''a.tif'']"
proof -
  have o: "rasterio_open demo_failing_band ''a.tif'' = Inr demo_dataset"
    by (simp add: demo_def demo_failing_band_def)
  have w: "warp demo_failing_band demo_dataset = Inl ReprojectionFailed"
    by (simp add: warp_def demo_failing_band_def demo_def demo_dataset_def reproject_bands_def)
  show ?thesis by (simp add: raster_layer_def o w)
qed

text \<open>
  Claim C9, amended. The method has no structured cleanup for the source dataset: once
  \<open>rasterio.open\<close> has succeeded, on every path out of the call (normal return or
  any raise) no statement has released it, so its release is left to the garbage
  collector, whereas the memory file and its writer have been released by their
  \<open>with\<close> blocks.
\<close>

theorem source_handle_not_scoped:
  assumes "rasterio_open C file_path = Inr ds"
  shows "Acquire (SourceDataset file_path)
           \<in> set (events (raster_layer C uid file_path title description visible self)) \<and>
         Release (SourceDataset file_path)
           \<notin> set (events (raster_layer C uid file_path title description visible self)) \<and>
         still_open (events (raster_layer C uid file_path title description visible self)) []
           = [SourceDataset file_path]"
  using assms
  by (simp add: raster_layer_def with_memfile_def Let_def split: sum.splits prod.splits)

theorem source_handle_not_scoped_witness:
  "rasterio_open demo ''a.tif'' = Inr demo_dataset \<and>
   Release (SourceDataset ''a.tif'')
     \<notin> set (events (raster_layer demo ''id1'' ''a.tif'' ''t'' ''d'' True init)) \<and>
   still_open (events (raster_layer demo ''id1'' ''a.tif'' ''t'' ''d'' True init)) []
     = [SourceDataset ''a.tif'']"
proof -
  have h: "rasterio_open demo ''a.tif'' = Inr demo_dataset" by (simp add: demo_def)
  show ?thesis using h source_handle_not_scoped [OF h] by simp
qed

section \<open>The grid of the bands\<close>






section \<open>The reference image and the payload of the URI\<close>

text \<open>
  \<open>b64decode\<close> inverts \<open>b64encode\<close>: the payload of a data URI decodes to the bytes
  that were encoded.
\<close>

lemma index_of_nth:
  "distinct xs \<Longrightarrow> n < length xs \<Longrightarrow> index_of (xs ! n) xs = Some n"
proof (induction xs arbitrary: n)
  case Nil
  then show ?case by simp
next
  case (Cons x xs)
  show ?case
  proof (cases n)
    case 0
    then show ?thesis by simp
  next
    case (Suc m)
    with Cons.prems have m: "m < length xs" and d: "distinct xs" and nx: "x \<notin> set xs"
      by simp_all
    from m nx have "xs ! m \<noteq> x" by (metis nth_mem)
    with Cons.IH [OF d m] Suc show ?thesis by simp
  qed
qed

lemma b64_alphabet_distinct: "distinct b64_alphabet"
  by (simp add: b64_alphabet_def)

lemma b64_alphabet_length: "length b64_alphabet = 64"
  by (simp add: b64_alphabet_def)

lemma b64_alphabet_no_pad: "CHR ''='' \<notin> set b64_alphabet"
  by (simp add: b64_alphabet_def)

lemma b64_index_char: "n < 64 \<Longrightarrow> b64_index (b64_char n) = Some n"
  by (simp add: b64_index_def b64_char_def index_of_nth b64_alphabet_distinct
      b64_alphabet_length)

lemma b64_char_no_pad: "n < 64 \<Longrightarrow> b64_char n \<noteq> CHR ''=''"
proof
  assume n: "n < 64" and e: "b64_char n = CHR ''=''"
  from n have "b64_alphabet ! n \<in> set b64_alphabet"
    by (simp only: nth_mem b64_alphabet_length)
  with e b64_alphabet_no_pad show False by (simp add: b64_char_def)
qed

lemma unat_byte: "unat (x :: 8 word) < 256"
  using unsigned_less [of x, where ?'a = nat] by simp

lemma sextet_hi: "(a::nat) < 256 \<Longrightarrow> a div 4 < 64"
  by simp

lemma sextet_mid1: "(b::nat) < 256 \<Longrightarrow> (a mod 4) * 16 + b div 16 < 64"
proof -
  assume "b < 256"
  then have "b div 16 < 16" by simp
  moreover have "a mod 4 < 4" by simp
  then have "a mod 4 \<le> 3" by linarith
  then have "(a mod 4) * 16 \<le> 48" by simp
  ultimately show ?thesis by linarith
qed

lemma sextet_mid2: "(c::nat) < 256 \<Longrightarrow> (b mod 16) * 4 + c div 64 < 64"
proof -
  assume "c < 256"
  then have "c div 64 < 4" by simp
  moreover have "b mod 16 < 16" by simp
  then have "b mod 16 \<le> 15" by linarith
  then have "(b mod 16) * 4 \<le> 60" by simp
  ultimately show ?thesis by linarith
qed

lemma sextet_pad: "((a::nat) mod 4) * 16 < 64" "((b::nat) mod 16) * 4 < 64"
proof -
  have "a mod 4 < 4" by simp
  then show "(a mod 4) * 16 < 64" by simp
  have "b mod 16 < 16" by simp
  then show "(b mod 16) * 4 < 64" by simp
qed

lemma digit_hi: "h < k \<Longrightarrow> (r * k + h) div k = (r::nat)"
  by simp

lemma digit_lo: "h < k \<Longrightarrow> (r * k + h) mod k = (h::nat)"
  by simp

lemma byte1: "(b::nat) < 256 \<Longrightarrow> a div 4 * 4 + ((a mod 4) * 16 + b div 16) div 16 = a"
  by (simp add: digit_hi)

lemma byte2: "(b::nat) < 256 \<Longrightarrow> c < 256 \<Longrightarrow>
  ((a mod 4) * 16 + b div 16) mod 16 * 16 + ((b mod 16) * 4 + c div 64) div 4 = b"
  by (simp add: digit_hi digit_lo)

lemma byte3: "(c::nat) < 256 \<Longrightarrow> ((b mod 16) * 4 + c div 64) mod 4 * 64 + c mod 64 = c"
  by (simp add: digit_lo)

lemma byte1_pad: "a div 4 * 4 + ((a mod 4) * 16) div 16 = (a::nat)"
  by simp

lemma byte2_pad: "(b::nat) < 256 \<Longrightarrow>
  ((a mod 4) * 16 + b div 16) mod 16 * 16 + ((b mod 16) * 4) div 4 = b"
  by (simp add: digit_lo)

lemma decode_group1:
  "s0 < 64 \<Longrightarrow> s1 < 64 \<Longrightarrow>
   b64decode [b64_char s0, b64_char s1, CHR ''='', CHR ''=''] =
     Some [of_nat (s0 * 4 + s1 div 16)]"
  by (simp add: b64_index_char)

lemma decode_group2:
  "s0 < 64 \<Longrightarrow> s1 < 64 \<Longrightarrow> s2 < 64 \<Longrightarrow>
   b64decode [b64_char s0, b64_char s1, b64_char s2, CHR ''=''] =
     Some [of_nat (s0 * 4 + s1 div 16), of_nat ((s1 mod 16) * 16 + s2 div 4)]"
  by (simp add: b64_index_char b64_char_no_pad)

lemma decode_group3:
  "s0 < 64 \<Longrightarrow> s1 < 64 \<Longrightarrow> s2 < 64 \<Longrightarrow> s3 < 64 \<Longrightarrow>
   b64decode (b64_char s0 # b64_char s1 # b64_char s2 # b64_char s3 # rest) =
     map_option
       (\<lambda>bs. [of_nat (s0 * 4 + s1 div 16), of_nat ((s1 mod 16) * 16 + s2 div 4),
              of_nat ((s2 mod 4) * 64 + s3)] @ bs)
       (b64decode rest)"
  by (cases "b64decode rest") (simp_all add: b64_index_char b64_char_no_pad)

lemma b64decode_b64encode: "b64decode (b64encode bs) = Some bs"
proof (induction bs rule: b64encode.induct)
  case 1
  then show ?case by simp
next
  case (2 x)
  have e: "unat x div 4 * 4 + ((unat x mod 4) * 16) div 16 = unat x"
    by (rule byte1_pad)
  have "b64decode (b64encode [x]) = Some [of_nat (unat x div 4 * 4 + ((unat x mod 4) * 16) div 16)]"
    by (simp only: b64encode.simps decode_group1 [OF sextet_hi [OF unat_byte] sextet_pad(1)])
  then show ?case by (simp only: e of_nat_unat ucast_id)
next
  case (3 x y)
  have e1: "unat x div 4 * 4 + ((unat x mod 4) * 16 + unat y div 16) div 16 = unat x"
    by (rule byte1 [OF unat_byte])
  have e2: "((unat x mod 4) * 16 + unat y div 16) mod 16 * 16 + ((unat y mod 16) * 4) div 4
      = unat y"
    by (rule byte2_pad [OF unat_byte])
  have "b64decode (b64encode [x, y]) =
      Some [of_nat (unat x div 4 * 4 + ((unat x mod 4) * 16 + unat y div 16) div 16),
            of_nat (((unat x mod 4) * 16 + unat y div 16) mod 16 * 16 +
                    ((unat y mod 16) * 4) div 4)]"
    by (simp only: b64encode.simps
        decode_group2 [OF sextet_hi [OF unat_byte] sextet_mid1 [OF unat_byte] sextet_pad(2)])
  then show ?case by (simp only: e1 e2 of_nat_unat ucast_id)
next
  case (4 x y z rest)
  have e1: "unat x div 4 * 4 + ((unat x mod 4) * 16 + unat y div 16) div 16 = unat x"
    by (rule byte1 [OF unat_byte])
  have e2: "((unat x mod 4) * 16 + unat y div 16) mod 16 * 16 +
      ((unat y mod 16) * 4 + unat z div 64) div 4 = unat y"
    by (rule byte2 [OF unat_byte unat_byte])
  have e3: "((unat y mod 16) * 4 + unat z div 64) mod 4 * 64 + unat z mod 64 = unat z"
    by (rule byte3 [OF unat_byte])
  have m: "unat z mod 64 < 64" by simp
  have "b64decode (b64encode (x # y # z # rest)) =
      map_option
       (\<lambda>bs. [of_nat (unat x div 4 * 4 + ((unat x mod 4) * 16 + unat y div 16) div 16),
              of_nat (((unat x mod 4) * 16 + unat y div 16) mod 16 * 16 +
                      ((unat y mod 16) * 4 + unat z div 64) div 4),
              of_nat (((unat y mod 16) * 4 + unat z div 64) mod 4 * 64 + unat z mod 64)] @ bs)
       (b64decode (b64encode rest))"
    by (simp only: b64encode.simps append_Cons append_Nil
        decode_group3 [OF sextet_hi [OF unat_byte] sextet_mid1 [OF unat_byte]
          sextet_mid2 [OF unat_byte] m])
  then show ?case
    by (simp only: e1 e2 e3 of_nat_unat ucast_id "4.IH" option.map append_Cons append_Nil)
qed

lemma raster_layer_payload:
  assumes "result (raster_layer C uid file_path title description visible self) = Inr ()"
  shows "\<exists>written content.
     dst_close C written = Inr content \<and>
     last (raster_image_reference
        (proxy (raster_layer C uid file_path title description visible self)))
       = memfile_content C written \<and>
     rl_url (last (raster_layers
        (proxy (raster_layer C uid file_path title description visible self))))
       = data_uri_prefix @ b64encode (drop (length (memfile_content C written)) content) \<and>
     b64decode (b64encode (drop (length (memfile_content C written)) content))
       = Some (drop (length (memfile_content C written)) content)"
proof -
  from raster_layer_Inr [OF assms] obtain t w h written content where
    c: "dst_close C written = Inr content" and
    p: "proxy (raster_layer C uid file_path title description visible self) =
       self\<lparr>raster_image_reference := raster_image_reference self @ [memfile_content C written],
            raster_layers := raster_layers self @
              [RasterLayer uid title description
                 (data_uri_prefix @
                    b64encode (drop (length (memfile_content C written)) content))
                 (raster_bounds t w h) visible]\<rparr>"
    by blast
  show ?thesis
    by (rule exI [of _ written], rule exI [of _ content])
       (simp add: c p b64decode_b64encode)
qed

text \<open>
  Claim C5, on the ingestion of \<open>a.tif\<close>. The call succeeds; the buffer it records in
  \<open>raster_image_reference\<close> is the result of the read of line 223, made while the
  writer is open, here the empty byte string; the payload of the URI of the record
  decodes to the bytes of the read of line 227, made after the writer has closed, the
  PNG. The two differ, where the claim has them equal.
\<close>

theorem reference_is_not_payload:
  "result (raster_layer demo ''id1'' ''a.tif'' ''t'' ''d'' True init) = Inr () \<and>
   raster_image_reference (proxy (raster_layer demo ''id1'' ''a.tif'' ''t'' ''d'' True init))
     = [[]] \<and>
   map rl_url (raster_layers (proxy (raster_layer demo ''id1'' ''a.tif'' ''t'' ''d'' True init)))
     = [data_uri_prefix @ ''iVBORwI=''] \<and>
   b64decode ''iVBORwI='' = Some [137, 80, 78, 71, 2] \<and>
   [137, 80, 78, 71, 2] \<noteq> ([] :: bytes)"
proof -
  have e: "b64encode [137, 80, 78, 71, 2] = ''iVBORwI=''"
    by (simp add: b64_char_def b64_alphabet_def)
  have "b64decode (b64encode [137, 80, 78, 71, 2]) = Some [137, 80, 78, 71, 2]"
    by (rule b64decode_b64encode)
  then have d: "b64decode ''iVBORwI='' = Some [137, 80, 78, 71, 2]"
    by (simp only: e)
  show ?thesis
    by (simp add: demo_run d data_uri_prefix_def del: b64decode.simps)
qed

end
